theory Spec2Isabelle
  imports Complex_Main "HOL-Library.Word"
begin

section \<open>Values and columns\<close>

text \<open>
  The program keeps its tables in pandas DataFrames. A column read from a CSV file is
  one of three kinds: 64-bit signed integers (dtype int64, arithmetic modulo \<open>2^64\<close>),
  floating-point numbers (dtype float64) and strings (dtype object).

  Floating-point numbers are idealised: a finite value is a real number, there is one
  zero, and the rounding of a result to 53 bits is left out. The special values of IEEE 754
  are kept, and so is the range of the format: a quotient too large for it is an infinity,
  a quotient too small is zero (the sums and the product of the program cannot leave the
  range).
\<close>

type_synonym int64 = "64 word"

datatype float64 = Finite real | PInf | NInf | NaN

fun fadd :: "float64 \<Rightarrow> float64 \<Rightarrow> float64" where
  "fadd NaN y = NaN"
| "fadd x NaN = NaN"
| "fadd PInf NInf = NaN"
| "fadd NInf PInf = NaN"
| "fadd PInf y = PInf"
| "fadd NInf y = NInf"
| "fadd x PInf = PInf"
| "fadd x NInf = NInf"
| "fadd (Finite a) (Finite b) = Finite (a + b)"

fun fmul_pos :: "float64 \<Rightarrow> real \<Rightarrow> float64" where
  "fmul_pos (Finite a) k = Finite (a * k)"
| "fmul_pos x k = x"

fun fneg :: "float64 \<Rightarrow> float64" where
  "fneg (Finite a) = Finite (- a)"
| "fneg PInf = NInf"
| "fneg NInf = PInf"
| "fneg NaN = NaN"

text \<open>Rounding to nearest turns a real of magnitude \<open>2^1024 - 2^970\<close> or more into an
  infinity and one of magnitude \<open>2^-1075\<close> or less into zero.\<close>

definition round_range :: "real \<Rightarrow> float64" where
  "round_range r =
     (if 2 ^ 1024 - 2 ^ 970 \<le> r then PInf
      else if r \<le> - (2 ^ 1024 - 2 ^ 970) then NInf
      else if \<bar>r\<bar> \<le> 1 / 2 ^ 1075 then Finite 0
      else Finite r)"

fun fdiv :: "float64 \<Rightarrow> float64 \<Rightarrow> float64" where
  "fdiv NaN y = NaN"
| "fdiv x NaN = NaN"
| "fdiv (Finite a) PInf = Finite 0"
| "fdiv (Finite a) NInf = Finite 0"
| "fdiv x PInf = NaN"
| "fdiv x NInf = NaN"
| "fdiv (Finite a) (Finite b) =
     (if b = 0 then (if a = 0 then NaN else if 0 < a then PInf else NInf)
      else round_range (a / b))"
| "fdiv x (Finite b) = (if 0 \<le> b then x else fneg x)"

fun fgt :: "float64 \<Rightarrow> real \<Rightarrow> bool" where
  "fgt (Finite a) k = (k < a)"
| "fgt PInf k = True"
| "fgt NInf k = False"
| "fgt NaN k = False"

definition of_int64 :: "int64 \<Rightarrow> float64" where
  "of_int64 v = Finite (real_of_int (sint v))"

datatype column = IntCol "int64 list" | FloatCol "float64 list" | ObjCol "string list"

type_synonym dataframe = "(string \<times> column) list"

datatype exn =
    EmptyDataError
  | ParserError
  | PermissionError
  | FileNotFoundError
  | KeyError string
  | TypeError

fun col_len :: "column \<Rightarrow> nat" where
  "col_len (IntCol xs) = length xs"
| "col_len (FloatCol xs) = length xs"
| "col_len (ObjCol xs) = length xs"

text \<open>\<open>series + k\<close> for an integer literal \<open>k\<close>. On strings Python raises TypeError; an
  empty object column has no element to fail on.\<close>

fun add_int :: "column \<Rightarrow> int \<Rightarrow> exn + column" where
  "add_int (IntCol xs) k = Inr (IntCol (map (\<lambda>x. x + word_of_int k) xs))"
| "add_int (FloatCol xs) k = Inr (FloatCol (map (\<lambda>x. fadd x (Finite (real_of_int k))) xs))"
| "add_int (ObjCol xs) k = (if xs = [] then Inr (ObjCol []) else Inl TypeError)"

text \<open>\<open>series + e\<close> for a float literal \<open>e\<close>: an integer column is converted first.\<close>

fun add_float :: "column \<Rightarrow> real \<Rightarrow> exn + column" where
  "add_float (IntCol xs) e = Inr (FloatCol (map (\<lambda>x. fadd (of_int64 x) (Finite e)) xs))"
| "add_float (FloatCol xs) e = Inr (FloatCol (map (\<lambda>x. fadd x (Finite e)) xs))"
| "add_float (ObjCol xs) e = (if xs = [] then Inr (ObjCol []) else Inl TypeError)"

fun as_floats :: "column \<Rightarrow> float64 list option" where
  "as_floats (IntCol xs) = Some (map of_int64 xs)"
| "as_floats (FloatCol xs) = Some xs"
| "as_floats (ObjCol xs) = (if xs = [] then Some [] else None)"

text \<open>\<open>a / b\<close> on two columns of one frame: true division, elementwise, never raising on
  a zero divisor (numpy yields an infinity or NaN there). Strings cannot be divided; an
  empty object column has no element to fail on and gives an empty object column.\<close>

fun is_object :: "column \<Rightarrow> bool" where
  "is_object (ObjCol xs) = True"
| "is_object c = False"

definition truediv :: "column \<Rightarrow> column \<Rightarrow> exn + column" where
  "truediv a b =
     (case as_floats a of
        None \<Rightarrow> Inl TypeError
      | Some xs \<Rightarrow>
          (case as_floats b of
             None \<Rightarrow> Inl TypeError
           | Some ys \<Rightarrow>
               if is_object a \<or> is_object b then Inr (ObjCol [])
               else Inr (FloatCol (map (\<lambda>(x, y). fdiv x y) (zip xs ys)))))"

text \<open>\<open>series > k\<close> for an integer literal \<open>k\<close>: the boolean mask.\<close>

fun gt :: "column \<Rightarrow> int \<Rightarrow> exn + bool list" where
  "gt (IntCol xs) k = Inr (map (\<lambda>x. k < sint x) xs)"
| "gt (FloatCol xs) k = Inr (map (\<lambda>x. fgt x (real_of_int k)) xs)"
| "gt (ObjCol xs) k = (if xs = [] then Inr [] else Inl TypeError)"

text \<open>Selection by a boolean mask keeps the entries whose bit is set, in order.\<close>

definition select :: "bool list \<Rightarrow> 'a list \<Rightarrow> 'a list" where
  "select keep xs = map fst (filter snd (zip xs keep))"

fun col_select :: "bool list \<Rightarrow> column \<Rightarrow> column" where
  "col_select keep (IntCol xs) = IntCol (select keep xs)"
| "col_select keep (FloatCol xs) = FloatCol (select keep xs)"
| "col_select keep (ObjCol xs) = ObjCol (select keep xs)"

fun col_take :: "nat \<Rightarrow> column \<Rightarrow> column" where
  "col_take n (IntCol xs) = IntCol (take n xs)"
| "col_take n (FloatCol xs) = FloatCol (take n xs)"
| "col_take n (ObjCol xs) = ObjCol (take n xs)"

section \<open>Frames\<close>

definition DataFrame :: dataframe where
  "DataFrame = []"

definition nrows :: "dataframe \<Rightarrow> nat" where
  "nrows df = (case df of [] \<Rightarrow> 0 | (n, c) # rest \<Rightarrow> col_len c)"

definition empty_frame :: "dataframe \<Rightarrow> bool" where
  "empty_frame df = (df = [] \<or> nrows df = 0)"

definition getitem :: "dataframe \<Rightarrow> string \<Rightarrow> exn + column" where
  "getitem df name = (case map_of df name of None \<Rightarrow> Inl (KeyError name) | Some c \<Rightarrow> Inr c)"

text \<open>\<open>df[name] = c\<close> replaces the column of that name where it stands, or appends it.\<close>

fun setitem :: "dataframe \<Rightarrow> string \<Rightarrow> column \<Rightarrow> dataframe" where
  "setitem [] name c = [(name, c)]"
| "setitem ((n, x) # df) name c =
     (if n = name then (n, c) # df else (n, x) # setitem df name c)"

definition frame_select :: "dataframe \<Rightarrow> bool list \<Rightarrow> dataframe" where
  "frame_select df keep = map (\<lambda>(n, c). (n, col_select keep c)) df"

definition head :: "dataframe \<Rightarrow> dataframe" where
  "head df = map (\<lambda>(n, c). (n, col_take 5 c)) df"

definition where_labels :: "bool list \<Rightarrow> string \<Rightarrow> string \<Rightarrow> column" where
  "where_labels keep a b = ObjCol (map (\<lambda>t. if t then a else b) keep)"

text \<open>A frame as pandas builds it: distinct column labels, columns of one length.\<close>

definition wf_frame :: "dataframe \<Rightarrow> bool" where
  "wf_frame df = (distinct (map fst df) \<and> list_all (\<lambda>(n, c). col_len c = nrows df) df)"

section \<open>The world: files, random numbers, log\<close>

record fnode =
  content :: string
  readable :: bool
  writable :: bool

datatype level = DEBUG | INFO | WARNING | ERROR | CRITICAL

datatype message =
    CreatingSample
  | SampleCreated nat
  | ReadingFrom string
  | NotFoundGenerating string
  | SampleSavedTo string
  | InputIsEmpty string
  | ErrorReading string exn
  | OriginalHead dataframe
  | StartingTransformations
  | AddedColumn string
  | Filtered nat
  | ProcessedHead dataframe
  | ExecutionStarted
  | SavedTo string
  | NoDataToSave
  | Unhandled exn
  | ExecutionFinished

record world =
  files :: "string \<rightharpoonup> fnode"
  entropy :: "nat \<Rightarrow> nat"
  logged :: "(level \<times> message) list"

text \<open>The CSV reader and writer of pandas are library code: what the reader makes of a
  file's bytes and what the writer prints for a frame are parameters of the model.\<close>

record codec =
  parse :: "string \<Rightarrow> exn + dataframe"
  render :: "dataframe \<Rightarrow> string"

type_synonym 'a io = "world \<Rightarrow> (exn + 'a) \<times> world"

definition io_return :: "'a \<Rightarrow> 'a io" where
  "io_return x w = (Inr x, w)"

definition io_bind :: "'a io \<Rightarrow> ('a \<Rightarrow> 'b io) \<Rightarrow> 'b io" where
  "io_bind m f w = (case m w of (Inl e, w') \<Rightarrow> (Inl e, w') | (Inr x, w') \<Rightarrow> f x w')"

definition io_lift :: "exn + 'a \<Rightarrow> 'a io" where
  "io_lift r w = (r, w)"

definition emit :: "level \<Rightarrow> message \<Rightarrow> world \<Rightarrow> world" where
  "emit l m w = w\<lparr>logged := logged w @ [(l, m)]\<rparr>"

definition io_log :: "level \<Rightarrow> message \<Rightarrow> unit io" where
  "io_log l m w = (Inr (), emit l m w)"

definition DEFAULT_INPUT_CSV_PATH :: string where
  "DEFAULT_INPUT_CSV_PATH = ''data/sample_input.csv''"

definition DEFAULT_OUTPUT_CSV_PATH :: string where
  "DEFAULT_OUTPUT_CSV_PATH = ''data/processed_output.csv''"

definition path_exists :: "world \<Rightarrow> string \<Rightarrow> bool" where
  "path_exists w p = (files w p \<noteq> None)"

text \<open>\<open>pd.read_csv\<close>: a file that cannot be opened raises, a zero-byte file raises
  EmptyDataError (no columns to parse), anything else is up to the parser.\<close>

definition read_csv :: "codec \<Rightarrow> string \<Rightarrow> dataframe io" where
  "read_csv cd p w =
     (case files w p of
        None \<Rightarrow> (Inl FileNotFoundError, w)
      | Some f \<Rightarrow>
          if \<not> readable f then (Inl PermissionError, w)
          else if content f = [] then (Inl EmptyDataError, w)
          else (parse cd (content f), w))"

text \<open>\<open>df.to_csv(p, index=False)\<close>: creates the file or overwrites its content; an
  existing file that is not writable raises.\<close>

definition to_csv :: "codec \<Rightarrow> dataframe \<Rightarrow> string \<Rightarrow> unit io" where
  "to_csv cd df p w =
     (case files w p of
        None \<Rightarrow>
          (Inr (), w\<lparr>files := (files w)(p \<mapsto>
             \<lparr>content = render cd df, readable = True, writable = True\<rparr>)\<rparr>)
      | Some f \<Rightarrow>
          if writable f
          then (Inr (), w\<lparr>files := (files w)(p \<mapsto> f\<lparr>content := render cd df\<rparr>)\<rparr>)
          else (Inl PermissionError, w))"

text \<open>\<open>np.random.randint(lo, hi, size=n)\<close> and \<open>np.random.rand(n)\<close>, drawing from the
  stream of raw random numbers of the world: every integer of \<open>[lo, hi)\<close> and every
  multiple of \<open>2^-53\<close> in \<open>[0, 1)\<close> can come out.\<close>

definition randint :: "int \<Rightarrow> int \<Rightarrow> nat \<Rightarrow> (nat \<Rightarrow> nat) \<Rightarrow> int64 list" where
  "randint lo hi n raw =
     map (\<lambda>i. word_of_int (lo + int (raw i mod nat (hi - lo)))) [0..<n]"

definition rand :: "nat \<Rightarrow> (nat \<Rightarrow> nat) \<Rightarrow> float64 list" where
  "rand n raw = map (\<lambda>i. Finite (real (raw i mod 2 ^ 53) / 2 ^ 53)) [0..<n]"

section \<open>The program\<close>

text \<open>
  Paths are strings, taken relative to the project root. The directory \<open>data\<close> is taken to
  exist: \<open>os.makedirs(data_dir, exist_ok=True)\<close>, the first statement of \<open>process_data\<close>,
  is not modelled. A call of the logger appends one record to the log of the world, whatever
  handlers \<open>setup_logging\<close> has installed.
\<close>

definition create_sample_dataframe :: "dataframe io" where
  "create_sample_dataframe w =
     (let w1 = emit DEBUG CreatingSample w;
          raw = entropy w1;
          value1 = randint 10 50 5 raw;
          value2 = map (\<lambda>x. fmul_pos x 100) (rand 5 (\<lambda>i. raw (i + 5)));
          df = [(''id'', IntCol [1, 2, 3, 4, 5]),
                (''category'', ObjCol [''A'', ''B'', ''A'', ''C'', ''B'']),
                (''value1'', IntCol value1),
                (''value2'', FloatCol value2)];
          w2 = w1\<lparr>entropy := (\<lambda>i. raw (i + 10))\<rparr>
      in (Inr df, emit DEBUG (SampleCreated (nrows df)) w2))"

text \<open>The body of the \<open>try\<close> block of \<open>process_data\<close>.\<close>

definition load_input :: "codec \<Rightarrow> string \<Rightarrow> dataframe io" where
  "load_input cd effective_input_path w =
     (if path_exists w effective_input_path
      then io_bind (io_log INFO (ReadingFrom effective_input_path))
             (\<lambda>_. read_csv cd effective_input_path) w
      else io_bind (io_log WARNING (NotFoundGenerating effective_input_path))
             (\<lambda>_. io_bind create_sample_dataframe
             (\<lambda>df. io_bind (to_csv cd df DEFAULT_INPUT_CSV_PATH)
             (\<lambda>_. io_bind (io_log INFO (SampleSavedTo DEFAULT_INPUT_CSV_PATH))
             (\<lambda>_. io_return df)))) w)"

text \<open>The statements of \<open>process_data\<close> after the \<open>try\<close> block.\<close>

definition transform :: "dataframe \<Rightarrow> dataframe io" where
  "transform df =
     io_bind (io_log INFO (OriginalHead (head df)))
     (\<lambda>_. io_bind (io_log DEBUG StartingTransformations)
     (\<lambda>_. io_bind (io_lift (getitem df ''value1''))
     (\<lambda>v1. io_bind (io_lift (add_int v1 10))
     (\<lambda>plus10. let df1 = setitem df ''value1_plus_10'' plus10 in
      io_bind (io_log DEBUG (AddedColumn ''value1_plus_10''))
     (\<lambda>_. io_bind (io_lift (getitem df1 ''value2''))
     (\<lambda>v2. io_bind (io_lift (getitem df1 ''value1''))
     (\<lambda>v1'. io_bind (io_lift (add_float v1' (1 / 1000000)))
     (\<lambda>den. io_bind (io_lift (truediv v2 den))
     (\<lambda>quot. let df2 = setitem df1 ''value2_div_value1'' quot in
      io_bind (io_log DEBUG (AddedColumn ''value2_div_value1''))
     (\<lambda>_. io_bind (io_lift (getitem df2 ''value1''))
     (\<lambda>v1''. io_bind (io_lift (gt v1'' 20))
     (\<lambda>keep. let df_filtered = frame_select df2 keep in
      io_bind (io_log DEBUG (Filtered (nrows df_filtered)))
     (\<lambda>_. io_bind (io_lift (getitem df_filtered ''value1''))
     (\<lambda>fv1. io_bind (io_lift (gt fv1 35))
     (\<lambda>high. let df_out = setitem df_filtered ''value1_type''
                              (where_labels high ''High'' ''Medium'') in
      io_bind (io_log DEBUG (AddedColumn ''value1_type''))
     (\<lambda>_. io_bind (io_log INFO (ProcessedHead (head df_out)))
     (\<lambda>_. io_return df_out)))))))))))))))))"

definition effective_path :: "string option \<Rightarrow> string" where
  "effective_path input_csv_path =
     (case input_csv_path of
        None \<Rightarrow> DEFAULT_INPUT_CSV_PATH
      | Some p \<Rightarrow> if p = [] then DEFAULT_INPUT_CSV_PATH else p)"

definition process_data :: "codec \<Rightarrow> string option \<Rightarrow> dataframe io" where
  "process_data cd input_csv_path w =
     (let effective_input_path = effective_path input_csv_path in
      case load_input cd effective_input_path w of
        (Inl e, w1) \<Rightarrow>
          if e = EmptyDataError
          then (Inr DataFrame, emit ERROR (InputIsEmpty effective_input_path) w1)
          else (Inr DataFrame, emit ERROR (ErrorReading effective_input_path e) w1)
      | (Inr df, w1) \<Rightarrow> transform df w1)"

text \<open>The \<open>__main__\<close> block, after \<open>setup_logging()\<close>.\<close>

definition main :: "codec \<Rightarrow> world \<Rightarrow> world" where
  "main cd w =
     (let w0 = emit INFO ExecutionStarted w;
          w3 = (case process_data cd (Some DEFAULT_INPUT_CSV_PATH) w0 of
                  (Inl e, w1) \<Rightarrow> emit CRITICAL (Unhandled e) w1
                | (Inr processed_df, w1) \<Rightarrow>
                    if \<not> empty_frame processed_df
                    then (case to_csv cd processed_df DEFAULT_OUTPUT_CSV_PATH w1 of
                            (Inl e, w2) \<Rightarrow> emit CRITICAL (Unhandled e) w2
                          | (Inr u, w2) \<Rightarrow> emit INFO (SavedTo DEFAULT_OUTPUT_CSV_PATH) w2)
                    else emit INFO NoDataToSave w1)
      in emit INFO ExecutionFinished w3)"

section \<open>Fixtures\<close>

text \<open>The frame of the test suite (\<open>sample_df_for_test\<close> in \<open>tests/test_main.py\<close>) and what
  \<open>process_data\<close> makes of it; a reader that parses every non-empty file to a given frame,
  an ordinary file, a world with given files, an empty log and the random stream that is
  constantly zero, and the world that holds the one file \<open>test_input.csv\<close>; and a table of
  two rows whose first \<open>value1\<close> is 0.\<close>

definition sample_df_for_test :: dataframe where
  "sample_df_for_test =
     [(''id'', IntCol [1, 2, 3, 4, 5]),
      (''category'', ObjCol [''X'', ''Y'', ''X'', ''Z'', ''Y'']),
      (''value1'', IntCol [15, 25, 35, 45, 10]),
      (''value2'', FloatCol [Finite 10, Finite 20, Finite 30, Finite 40, Finite 50])]"

definition processed_df_for_test :: dataframe where
  "processed_df_for_test =
     [(''id'', IntCol [2, 3, 4]),
      (''category'', ObjCol [''Y'', ''X'', ''Z'']),
      (''value1'', IntCol [25, 35, 45]),
      (''value2'', FloatCol [Finite 20, Finite 30, Finite 40]),
      (''value1_plus_10'', IntCol [35, 45, 55]),
      (''value2_div_value1'',
         FloatCol [Finite (20 / (25 + 1 / 1000000)), Finite (30 / (35 + 1 / 1000000)),
                   Finite (40 / (45 + 1 / 1000000))]),
      (''value1_type'', ObjCol [''Medium'', ''Medium'', ''High''])]"


definition reader_of :: "dataframe \<Rightarrow> codec" where
  "reader_of df = \<lparr>parse = (\<lambda>s. Inr df), render = (\<lambda>d. ''csv'')\<rparr>"

definition plain_file :: "string \<Rightarrow> fnode" where
  "plain_file s = \<lparr>content = s, readable = True, writable = True\<rparr>"

definition world_of :: "(string \<rightharpoonup> fnode) \<Rightarrow> world" where
  "world_of fs = \<lparr>files = fs, entropy = (\<lambda>i. 0), logged = []\<rparr>"

definition test_world :: world where
  "test_world = world_of [''test_input.csv'' \<mapsto> plain_file ''csv'']"

section \<open>Basic facts\<close>

lemmas run_defs = process_data_def load_input_def effective_path_def path_exists_def read_csv_def
  to_csv_def create_sample_dataframe_def transform_def io_bind_def io_lift_def io_log_def
  io_return_def emit_def Let_def getitem_def frame_select_def select_def where_labels_def
  truediv_def head_def nrows_def randint_def rand_def of_int64_def DEFAULT_INPUT_CSV_PATH_def
  DataFrame_def reader_of_def plain_file_def world_of_def sample_df_for_test_def
  processed_df_for_test_def test_world_def round_range_def

lemma map_of_setitem: "map_of (setitem df n c) = (map_of df)(n \<mapsto> c)"
  by (induction df n c rule: setitem.induct) auto

lemma getitem_setitem: "getitem (setitem df n c) m = (if m = n then Inr c else getitem df m)"
  by (simp add: getitem_def map_of_setitem)

lemma getitem_frame_select:
  "getitem (frame_select df keep) n = map_sum id (col_select keep) (getitem df n)"
  by (induction df) (auto simp: getitem_def frame_select_def split: option.splits)

lemma getitem_DataFrame: "getitem DataFrame n = Inl (KeyError n)"
  by (simp add: getitem_def DataFrame_def)

lemma select_Nil: "select keep [] = []"
  by (simp add: select_def)

lemma select_map: "select keep (map f xs) = map f (select keep xs)"
  unfolding select_def
  by (induction xs arbitrary: keep) (auto simp: zip_Cons1 split: list.splits)

lemma select_zip: "select keep (zip xs ys) = zip (select keep xs) (select keep ys)"
  unfolding select_def
proof (induction xs arbitrary: keep ys)
  case Nil
  then show ?case by simp
next
  case (Cons x xs)
  show ?case
  proof (cases keep)
    case Nil
    then show ?thesis by simp
  next
    case (Cons b bs)
    then show ?thesis
      using Cons.IH [of _ bs] by (cases ys) auto
  qed
qed

lemma length_select_le: "length (select keep xs) \<le> length xs"
  unfolding select_def
  by (metis length_filter_le length_map length_zip min.cobounded1 order_trans)

lemma length_select:
  "length xs = length keep \<Longrightarrow> length (select keep xs) = length (filter (\<lambda>b. b) keep)"
  unfolding select_def
  by (induction xs keep rule: list_induct2) auto

lemma add_int_select:
  "add_int v k = Inr p \<Longrightarrow> add_int (col_select keep v) k = Inr (col_select keep p)"
  by (cases v) (auto simp: select_map select_Nil split: if_splits)

text \<open>What a run of the statements after the \<open>try\<close> block returns, when it returns a frame.\<close>

lemma transform_Inr:
  assumes "fst (transform df w) = Inr out"
  shows "\<exists>v1 p v2 den q keep high.
           getitem df ''value1'' = Inr v1 \<and> add_int v1 10 = Inr p \<and>
           getitem df ''value2'' = Inr v2 \<and> add_float v1 (1 / 1000000) = Inr den \<and>
           truediv v2 den = Inr q \<and> gt v1 20 = Inr keep \<and>
           gt (col_select keep v1) 35 = Inr high \<and>
           out = setitem (frame_select (setitem (setitem df ''value1_plus_10'' p)
                   ''value2_div_value1'' q) keep) ''value1_type''
                   (where_labels high ''High'' ''Medium'')"
  using assms
  unfolding transform_def io_bind_def io_lift_def io_log_def io_return_def Let_def emit_def
  by (auto split: sum.splits prod.splits simp: getitem_setitem getitem_frame_select)

text \<open>The transformation touches neither the files nor the random stream, and its result
  does not depend on the world it runs in.\<close>

lemma transform_world:
  "files (snd (transform df w)) = files w \<and> entropy (snd (transform df w)) = entropy w"
  unfolding transform_def io_bind_def io_lift_def io_log_def io_return_def Let_def emit_def
  by (auto split: sum.splits prod.splits)

lemma transform_pure: "fst (transform df w) = fst (transform df w2)"
  unfolding transform_def io_bind_def io_lift_def io_log_def io_return_def Let_def emit_def
  by (auto split: sum.splits prod.splits)

lemma process_data_cases:
  "fst (process_data cd p w) =
     (case fst (load_input cd (effective_path p) w) of
        Inl e \<Rightarrow> Inr DataFrame
      | Inr df \<Rightarrow> fst (transform df w))"
  unfolding process_data_def Let_def
  by (auto split: sum.splits prod.splits intro: transform_pure)

lemma process_data_Inr:
  assumes "fst (process_data cd p w) = Inr out" and "getitem out n = Inr c"
  shows "\<exists>df. fst (load_input cd (effective_path p) w) = Inr df \<and>
              fst (transform df w) = Inr out"
  using assms by (auto simp: process_data_cases getitem_DataFrame split: sum.splits)

lemma run_test_input:
  "fst (process_data (reader_of sample_df_for_test) (Some ''test_input.csv'') test_world) =
     Inr processed_df_for_test"
  by (simp add: run_defs)

lemma sint_small: "- 9223372036854775808 \<le> k \<Longrightarrow> k < 9223372036854775808 \<Longrightarrow> sint (word_of_int k :: int64) = k"
  by (simp add: signed_of_int signed_take_bit_int_eq_self)

lemma sint_plus_10:
  "sint (x :: int64) \<le> 9223372036854775797 \<Longrightarrow> sint (x + 10) = sint x + 10"
proof -
  assume a: "sint x \<le> 9223372036854775797"
  have lo: "- (2 ^ 63) \<le> sint x" using sint_ge [of x] by simp
  have "sint (x + 10) = signed_take_bit 63 (sint x + 10)"
    by (simp add: sint_word_ariths)
  also have "\<dots> = sint x + 10"
    by (rule signed_take_bit_int_eq_self) (use a lo in simp_all)
  finally show ?thesis .
qed

lemma length_randint: "length (randint lo hi n raw) = n"
  by (simp add: randint_def)

lemma randint_10_50:
  assumes "x \<in> set (randint 10 50 n raw)"
  shows "10 \<le> sint x \<and> sint x < 50"
proof -
  from assms obtain i where x: "x = word_of_int (10 + int (raw i mod 40))"
    by (auto simp: randint_def)
  have "int (raw i mod 40) < 40" by simp
  then have "sint (word_of_int (10 + int (raw i mod 40)) :: int64) = 10 + int (raw i mod 40)"
    by (intro sint_small) simp_all
  with x show ?thesis by simp
qed

lemma length_rand: "length (rand n raw) = n"
  by (simp add: rand_def)

lemma rand_times_100:
  assumes "y \<in> set (map (\<lambda>x. fmul_pos x 100) (rand n raw))"
  shows "\<exists>r. y = Finite r \<and> 0 \<le> r \<and> r < 100"
proof -
  from assms obtain i where y: "y = Finite (real (raw i mod 2 ^ 53) / 2 ^ 53 * 100)"
    by (auto simp: rand_def)
  have "raw i mod 2 ^ 53 < 2 ^ 53" by simp
  then have "real (raw i mod 2 ^ 53) < 2 ^ 53"
    by (metis of_nat_less_iff of_nat_numeral of_nat_power)
  then have "0 \<le> real (raw i mod 2 ^ 53) / 2 ^ 53 * 100 \<and>
             real (raw i mod 2 ^ 53) / 2 ^ 53 * 100 < 100"
    by (simp add: divide_simps)
  with y show ?thesis by blast
qed

lemma getitem_mem: "getitem df n = Inr c \<Longrightarrow> (n, c) \<in> set df"
  by (auto simp: getitem_def split: option.splits dest: map_of_SomeD)

lemma length_gt: "gt v k = Inr keep \<Longrightarrow> length keep = col_len v"
  by (cases v) (auto split: if_splits)

lemma col_len_add_int: "add_int v k = Inr p \<Longrightarrow> col_len p = col_len v"
  by (cases v) (auto split: if_splits)

lemma col_len_add_float: "add_float v e = Inr p \<Longrightarrow> col_len p = col_len v"
  by (cases v) (auto split: if_splits)

lemma length_as_floats: "as_floats v = Some xs \<Longrightarrow> length xs = col_len v"
  by (cases v) (auto split: if_splits)

lemma col_len_truediv:
  "truediv a b = Inr q \<Longrightarrow> col_len q = min (col_len a) (col_len b)"
  by (cases a; cases b) (auto simp: truediv_def split: if_splits)

lemma col_len_select:
  "col_len c = length keep \<Longrightarrow> col_len (col_select keep c) = length (filter (\<lambda>b. b) keep)"
  by (cases c) (simp_all add: length_select)

lemma all_len_setitem:
  "list_all (\<lambda>(n, c). col_len c = k) df \<Longrightarrow> col_len c = k \<Longrightarrow>
   list_all (\<lambda>(n, c). col_len c = k) (setitem df m c)"
  by (induction df m c rule: setitem.induct) auto

lemma all_len_frame_select:
  "list_all (\<lambda>(n, c). col_len c = length keep) df \<Longrightarrow>
   list_all (\<lambda>(n, c). col_len c = length (filter (\<lambda>b. b) keep)) (frame_select df keep)"
  by (induction df) (auto simp: frame_select_def col_len_select)

lemma nrows_all_len:
  "df \<noteq> [] \<Longrightarrow> list_all (\<lambda>(n, c). col_len c = k) df \<Longrightarrow> nrows df = k"
  by (cases df) (auto simp: nrows_def)

lemma setitem_not_Nil: "setitem df n c \<noteq> []"
  by (induction df n c rule: setitem.induct) auto

lemma wf_frame_col_len: "wf_frame df \<Longrightarrow> getitem df n = Inr c \<Longrightarrow> col_len c = nrows df"
  by (auto simp: wf_frame_def list_all_iff dest!: getitem_mem)



lemma select_map_filter: "select (map P xs) xs = filter P xs"
  unfolding select_def by (induction xs) auto

lemma zip_map_right: "zip xs (map f ys) = map (\<lambda>(x, y). (x, f y)) (zip xs ys)"
  by (induction xs arbitrary: ys) (auto simp: zip_Cons1 split: list.splits)

lemma transform_int_float:
  assumes "getitem df ''value1'' = Inr (IntCol xs)"
    and "getitem df ''value2'' = Inr (FloatCol ys)"
  shows "fst (transform df w) =
     Inr (setitem (frame_select
            (setitem (setitem df ''value1_plus_10'' (IntCol (map (\<lambda>x. x + 10) xs)))
               ''value2_div_value1''
               (FloatCol (map (\<lambda>(y, x). fdiv y (Finite (real_of_int (sint x) + 1 / 1000000)))
                            (zip ys xs))))
            (map (\<lambda>x. 20 < sint x) xs))
          ''value1_type''
          (ObjCol (map (\<lambda>x. if 35 < sint x then ''High'' else ''Medium'')
                     (select (map (\<lambda>x. 20 < sint x) xs) xs))))"
  using assms
  unfolding transform_def io_bind_def io_lift_def io_log_def io_return_def Let_def
  by (simp add: getitem_setitem getitem_frame_select truediv_def of_int64_def
        where_labels_def zip_map_right comp_def split_def)

lemma load_test_input:
  "fst (load_input (reader_of sample_df_for_test) (effective_path (Some ''test_input.csv''))
          test_world) = Inr sample_df_for_test"
  by (simp add: run_defs)

lemma wf_sample_df_for_test: "wf_frame sample_df_for_test"
  by (simp add: wf_frame_def sample_df_for_test_def nrows_def)

lemma rows_value1:
  assumes "length ids = length v1s" "length cats = length v1s" "length v2s = length v1s"
  shows "map (\<lambda>(i, c, v, y). P v) (zip ids (zip cats (zip v1s v2s))) = map P v1s"
proof -
  have "map (\<lambda>(i, c, v, y). P v) (zip ids (zip cats (zip v1s v2s))) =
        map P (map fst (map snd (map snd (zip ids (zip cats (zip v1s v2s))))))"
    by (simp add: comp_def split_def)
  also have "\<dots> = map P v1s"
    using assms by (simp only: map_snd_zip map_fst_zip length_zip min.idem)
  finally show ?thesis .
qed

lemma load_input_exists:
  "path_exists w q \<Longrightarrow>
   load_input cd q w = (fst (read_csv cd q w), emit INFO (ReadingFrom q) w)"
  by (simp add: load_input_def io_bind_def io_log_def read_csv_def emit_def split: option.splits)

lemma fst_read_csv_cong:
  "files w2 q = files w q \<Longrightarrow> fst (read_csv cd q w2) = fst (read_csv cd q w)"
  by (simp add: read_csv_def split: option.splits)

lemma fst_process_data_exists:
  assumes "path_exists w (effective_path p)"
  shows "fst (process_data cd p w) =
     (case fst (read_csv cd (effective_path p) w) of
        Inl e \<Rightarrow> Inr DataFrame
      | Inr df \<Rightarrow> fst (transform df w))"
  by (simp add: process_data_cases load_input_exists [OF assms])

lemma files_process_data_exists:
  assumes "path_exists w (effective_path p)"
  shows "files (snd (process_data cd p w)) = files w"
  unfolding process_data_def Let_def load_input_exists [OF assms]
  using transform_world [of _ "emit INFO (ReadingFrom (effective_path p)) w"]
  by (auto simp: emit_def split: sum.splits)

lemma fst_process_data_cong:
  assumes "path_exists w (effective_path p)"
    and "files w2 (effective_path p) = files w (effective_path p)"
  shows "fst (process_data cd p w2) = fst (process_data cd p w)"
proof -
  have ex2: "path_exists w2 (effective_path p)"
    using assms by (simp add: path_exists_def)
  show ?thesis
    unfolding fst_process_data_exists [OF assms(1)] fst_process_data_exists [OF ex2]
      fst_read_csv_cong [OF assms(2)]
    by (auto split: sum.splits intro: transform_pure)
qed

lemma files_to_csv_cong:
  "files w2 = files w \<Longrightarrow> files (snd (to_csv cd df q w2)) = files (snd (to_csv cd df q w))"
  by (simp add: to_csv_def split: option.splits)

lemma files_to_csv_other:
  "q' \<noteq> q \<Longrightarrow> files (snd (to_csv cd df q w)) q' = files w q'"
  by (simp add: to_csv_def split: option.splits)

lemma files_to_csv_twice:
  "files (snd (to_csv cd df q (snd (to_csv cd df q w)))) = files (snd (to_csv cd df q w))"
  by (auto simp: to_csv_def split: option.splits)

lemma files_emit: "files (emit l m w) = files w"
  by (simp add: emit_def)

lemma files_main:
  assumes "path_exists w DEFAULT_INPUT_CSV_PATH"
  shows "files (main cd w) =
     (case fst (process_data cd (Some DEFAULT_INPUT_CSV_PATH) w) of
        Inl e \<Rightarrow> files w
      | Inr df \<Rightarrow>
          if empty_frame df then files w
          else files (snd (to_csv cd df DEFAULT_OUTPUT_CSV_PATH w)))"
proof -
  let ?p = "Some DEFAULT_INPUT_CSV_PATH"
  let ?w0 = "emit INFO ExecutionStarted w"
  have eff: "effective_path ?p = DEFAULT_INPUT_CSV_PATH"
    by (simp add: effective_path_def DEFAULT_INPUT_CSV_PATH_def)
  have ex: "path_exists w (effective_path ?p)" using assms eff by simp
  have ex0: "path_exists ?w0 (effective_path ?p)"
    using ex by (simp add: path_exists_def files_emit)
  have r: "fst (process_data cd ?p ?w0) = fst (process_data cd ?p w)"
    by (rule fst_process_data_cong [OF ex]) (simp add: files_emit)
  have f: "files (snd (process_data cd ?p ?w0)) = files w"
    using files_process_data_exists [OF ex0] by (simp add: files_emit)
  obtain res w1 where pd: "process_data cd ?p ?w0 = (res, w1)" by (cases "process_data cd ?p ?w0")
  have res: "fst (process_data cd ?p w) = res" using r pd by simp
  have fw1: "files w1 = files w" using f pd by simp
  have t: "files (snd (to_csv cd df DEFAULT_OUTPUT_CSV_PATH w)) =
           files (snd (to_csv cd df DEFAULT_OUTPUT_CSV_PATH w1))" for df
    by (rule files_to_csv_cong [OF fw1, symmetric])
  show ?thesis
    unfolding main_def Let_def pd res
    by (auto simp: files_emit fw1 t split: sum.splits prod.splits)
qed

section \<open>The derived columns\<close>

text \<open>
  C1 (as amended). In every table that \<open>process_data\<close> returns, the column
  \<open>value1_plus_10\<close> is the column \<open>value1\<close> plus 10 in the arithmetic of that column: for a
  column of 64-bit integers the sum is taken modulo \<open>2^64\<close>, so it is the exact sum in
  every row whose \<open>value1\<close> is at most \<open>2^63 - 11\<close>.
\<close>

theorem value1_plus_10_wraps:
  assumes "fst (process_data cd p w) = Inr out" and "getitem out ''value1'' = Inr c"
  shows "getitem out ''value1_plus_10'' = add_int c 10 \<and>
         (\<forall>xs. c = IntCol xs \<longrightarrow>
            getitem out ''value1_plus_10'' = Inr (IntCol (map (\<lambda>x. x + 10) xs)) \<and>
            (\<forall>x \<in> set xs. sint x \<le> 9223372036854775797 \<longrightarrow> sint (x + 10) = sint x + 10))"
proof -
  from process_data_Inr [OF assms] obtain df where "fst (transform df w) = Inr out" by blast
  from transform_Inr [OF this] obtain v1 p v2 den q keep high where
    f: "getitem df ''value1'' = Inr v1" "add_int v1 10 = Inr p"
       "getitem df ''value2'' = Inr v2" "truediv v2 den = Inr q"
       "out = setitem (frame_select (setitem (setitem df ''value1_plus_10'' p)
                   ''value2_div_value1'' q) keep) ''value1_type''
                   (where_labels high ''High'' ''Medium'')" by blast
  have "c = col_select keep v1"
    using assms(2) f by (simp add: getitem_setitem getitem_frame_select)
  moreover have "getitem out ''value1_plus_10'' = Inr (col_select keep p)"
    using f by (simp add: getitem_setitem getitem_frame_select)
  ultimately have "getitem out ''value1_plus_10'' = add_int c 10"
    using add_int_select [OF f(2)] by simp
  then show ?thesis by (auto simp: sint_plus_10)
qed

text \<open>The test suite's input: the rows 25, 35, 45 are kept and become 35, 45, 55.\<close>

theorem value1_plus_10_wraps_witness:
  "fst (process_data (reader_of sample_df_for_test) (Some ''test_input.csv'') test_world) =
     Inr processed_df_for_test \<and>
   getitem processed_df_for_test ''value1'' = Inr (IntCol [25, 35, 45]) \<and>
   getitem processed_df_for_test ''value1_plus_10'' = Inr (IntCol [35, 45, 55])"
proof -
  have col: "getitem processed_df_for_test ''value1'' = Inr (IntCol [25, 35, 45])"
    by (simp add: getitem_def processed_df_for_test_def)
  show ?thesis
    using run_test_input col value1_plus_10_wraps [OF run_test_input col] by simp
qed

text \<open>
  C1 as stated fails: a file whose one row has \<open>value1 = 2^63 - 1\<close>, the largest 64-bit
  integer, is kept by the filter, and its \<open>value1_plus_10\<close> is \<open>-9223372036854775799\<close>, not
  \<open>value1 + 10\<close>.
\<close>

theorem value1_plus_10_overflow_counterexample:
  "fst (process_data
          (reader_of [(''id'', IntCol [1]), (''category'', ObjCol [''A'']),
                      (''value1'', IntCol [9223372036854775807]),
                      (''value2'', FloatCol [Finite 1])])
          (Some ''test_input.csv'') test_world) =
     Inr [(''id'', IntCol [1]), (''category'', ObjCol [''A'']),
          (''value1'', IntCol [9223372036854775807]),
          (''value2'', FloatCol [Finite 1]),
          (''value1_plus_10'', IntCol [- 9223372036854775799]),
          (''value2_div_value1'', FloatCol [Finite (1 / (9223372036854775807 + 1 / 1000000))]),
          (''value1_type'', ObjCol [''High''])] \<and>
   sint (9223372036854775807 :: int64) = 9223372036854775807 \<and>
   sint (- 9223372036854775799 :: int64) = - 9223372036854775799 \<and>
   sint (- 9223372036854775799 :: int64) \<noteq> sint (9223372036854775807 :: int64) + 10"
  by (simp add: run_defs)

text \<open>
  C2. In every table that \<open>process_data\<close> returns, the label \<open>value1_type\<close> of a row is
  \<open>High\<close> if the row's \<open>value1\<close> is greater than 35 and \<open>Medium\<close> otherwise.
\<close>

theorem value1_type_threshold:
  assumes "fst (process_data cd p w) = Inr out" and "getitem out ''value1'' = Inr c"
  shows "(\<forall>xs. c = IntCol xs \<longrightarrow> getitem out ''value1_type'' =
            Inr (ObjCol (map (\<lambda>x. if 35 < sint x then ''High'' else ''Medium'') xs))) \<and>
         (\<forall>xs. c = FloatCol xs \<longrightarrow> getitem out ''value1_type'' =
            Inr (ObjCol (map (\<lambda>x. if fgt x 35 then ''High'' else ''Medium'') xs)))"
proof -
  from process_data_Inr [OF assms] obtain df where "fst (transform df w) = Inr out" by blast
  from transform_Inr [OF this] obtain v1 p v2 den q keep high where
    f: "getitem df ''value1'' = Inr v1" "getitem df ''value2'' = Inr v2"
       "truediv v2 den = Inr q" "gt (col_select keep v1) 35 = Inr high"
       "out = setitem (frame_select (setitem (setitem df ''value1_plus_10'' p)
                   ''value2_div_value1'' q) keep) ''value1_type''
                   (where_labels high ''High'' ''Medium'')" by blast
  have c: "c = col_select keep v1"
    using assms(2) f by (simp add: getitem_setitem getitem_frame_select)
  have t: "getitem out ''value1_type'' = Inr (where_labels high ''High'' ''Medium'')"
    using f by (simp add: getitem_setitem)
  show ?thesis
    using f(4) c t by (cases c) (auto simp: where_labels_def comp_def)
qed

text \<open>The test suite's input: 25 and 35 are labelled \<open>Medium\<close>, 45 is labelled \<open>High\<close>.\<close>

theorem value1_type_threshold_witness:
  "fst (process_data (reader_of sample_df_for_test) (Some ''test_input.csv'') test_world) =
     Inr processed_df_for_test \<and>
   getitem processed_df_for_test ''value1'' = Inr (IntCol [25, 35, 45]) \<and>
   getitem processed_df_for_test ''value1_type'' = Inr (ObjCol [''Medium'', ''Medium'', ''High''])"
proof -
  have col: "getitem processed_df_for_test ''value1'' = Inr (IntCol [25, 35, 45])"
    by (simp add: getitem_def processed_df_for_test_def)
  show ?thesis
    using run_test_input col value1_type_threshold [OF run_test_input col] by simp
qed

section \<open>The sample generator\<close>

text \<open>
  C5 (as amended). Whatever the random stream, \<open>create_sample_dataframe\<close> returns a table of
  five rows with the columns \<open>id\<close> = 1..5, \<open>category\<close> = the fixed sequence A, B, A, C, B,
  \<open>value1\<close> = integers in \<open>[10, 50)\<close> and \<open>value2\<close> = floats in \<open>[0, 100)\<close>.
\<close>

theorem create_sample_dataframe_shape:
  "\<exists>v1 v2. fst (create_sample_dataframe w) =
       Inr [(''id'', IntCol [1, 2, 3, 4, 5]),
            (''category'', ObjCol [''A'', ''B'', ''A'', ''C'', ''B'']),
            (''value1'', IntCol v1),
            (''value2'', FloatCol v2)] \<and>
     length v1 = 5 \<and> length v2 = 5 \<and>
     (\<forall>x \<in> set v1. 10 \<le> sint x \<and> sint x < 50) \<and>
     (\<forall>y \<in> set v2. \<exists>r. y = Finite r \<and> 0 \<le> r \<and> r < 100)"
proof (intro exI conjI)
  show "fst (create_sample_dataframe w) =
       Inr [(''id'', IntCol [1, 2, 3, 4, 5]),
            (''category'', ObjCol [''A'', ''B'', ''A'', ''C'', ''B'']),
            (''value1'', IntCol (randint 10 50 5 (entropy w))),
            (''value2'', FloatCol (map (\<lambda>x. fmul_pos x 100)
                                   (rand 5 (\<lambda>i. entropy w (i + 5)))))]"
    by (simp add: create_sample_dataframe_def Let_def emit_def)
  show "length (randint 10 50 5 (entropy w)) = 5"
    by (rule length_randint)
  show "length (map (\<lambda>x. fmul_pos x 100) (rand 5 (\<lambda>i. entropy w (i + 5)))) = 5"
    by (simp add: length_rand)
  show "\<forall>x \<in> set (randint 10 50 5 (entropy w)). 10 \<le> sint x \<and> sint x < 50"
    using randint_10_50 by blast
  show "\<forall>y \<in> set (map (\<lambda>x. fmul_pos x 100) (rand 5 (\<lambda>i. entropy w (i + 5)))).
          \<exists>r. y = Finite r \<and> 0 \<le> r \<and> r < 100"
    using rand_times_100 by blast
qed

text \<open>The same at the world whose random stream is constantly zero.\<close>

theorem create_sample_dataframe_shape_witness:
  "\<exists>v1 v2. fst (create_sample_dataframe (world_of Map.empty)) =
       Inr [(''id'', IntCol [1, 2, 3, 4, 5]),
            (''category'', ObjCol [''A'', ''B'', ''A'', ''C'', ''B'']),
            (''value1'', IntCol v1),
            (''value2'', FloatCol v2)] \<and>
     length v1 = 5 \<and> length v2 = 5 \<and>
     (\<forall>x \<in> set v1. 10 \<le> sint x \<and> sint x < 50) \<and>
     (\<forall>y \<in> set v2. \<exists>r. y = Finite r \<and> 0 \<le> r \<and> r < 100)"
  by (rule create_sample_dataframe_shape)

text \<open>
  C5 as stated fails: the categories are not a cyclic pattern. The column is not the cycle
  A, B, C, A, B, and it repeats with no period below its length (periods 1, 2, 3 and 4 fail
  at the rows 1, 3, 3 and 4).
\<close>

theorem category_not_cyclic_counterexample:
  "getitem (projr (fst (create_sample_dataframe (world_of Map.empty)))) ''category'' =
     Inr (ObjCol [''A'', ''B'', ''A'', ''C'', ''B'']) \<and>
   [''A'', ''B'', ''A'', ''C'', ''B''] \<noteq> [''A'', ''B'', ''C'', ''A'', ''B''] \<and>
   [''A'', ''B'', ''A'', ''C'', ''B''] ! 1 \<noteq> [''A'', ''B'', ''A'', ''C'', ''B''] ! 0 \<and>
   [''A'', ''B'', ''A'', ''C'', ''B''] ! 3 \<noteq> [''A'', ''B'', ''A'', ''C'', ''B''] ! 1 \<and>
   [''A'', ''B'', ''A'', ''C'', ''B''] ! 3 \<noteq> [''A'', ''B'', ''A'', ''C'', ''B''] ! 0 \<and>
   [''A'', ''B'', ''A'', ''C'', ''B''] ! 4 \<noteq> [''A'', ''B'', ''A'', ''C'', ''B''] ! 0"
  by (simp add: create_sample_dataframe_def Let_def emit_def getitem_def)

section \<open>The filter\<close>

text \<open>
  C3. For every table that was loaded, with its columns of one length, the table that
  \<open>process_data\<close> returns holds exactly the rows whose \<open>value1\<close> is greater than 20: every
  column of the input that the pipeline does not overwrite is cut down by the one mask
  \<open>value1 > 20\<close>, the number of rows is the number of set bits of the mask, and it is at
  most the number of input rows.
\<close>

theorem filter_keeps_rows_above_20:
  assumes load: "fst (load_input cd (effective_path p) w) = Inr df"
    and wf: "wf_frame df"
    and run: "fst (process_data cd p w) = Inr out"
  shows "\<exists>v1 keep. getitem df ''value1'' = Inr v1 \<and> gt v1 20 = Inr keep \<and>
           length keep = nrows df \<and>
           (\<forall>n c. getitem df n = Inr c \<longrightarrow>
                  n \<notin> {''value1_plus_10'', ''value2_div_value1'', ''value1_type''} \<longrightarrow>
                  getitem out n = Inr (col_select keep c)) \<and>
           nrows out = length (filter (\<lambda>b. b) keep) \<and>
           nrows out \<le> nrows df"
proof -
  have "fst (transform df w) = Inr out"
    using load run by (simp add: process_data_cases)
  from transform_Inr [OF this] obtain v1 p v2 den q keep high where
    f: "getitem df ''value1'' = Inr v1" "add_int v1 10 = Inr p"
       "getitem df ''value2'' = Inr v2" "add_float v1 (1 / 1000000) = Inr den"
       "truediv v2 den = Inr q" "gt v1 20 = Inr keep"
       "gt (col_select keep v1) 35 = Inr high"
       "out = setitem (frame_select (setitem (setitem df ''value1_plus_10'' p)
                   ''value2_div_value1'' q) keep) ''value1_type''
                   (where_labels high ''High'' ''Medium'')" by blast
  let ?k = "length (filter (\<lambda>b. b) keep)"
  have len_keep: "length keep = nrows df"
    using f(1,6) wf by (simp add: length_gt wf_frame_col_len)
  have cols: "getitem out n = Inr (col_select keep c)"
    if "getitem df n = Inr c"
       "n \<notin> {''value1_plus_10'', ''value2_div_value1'', ''value1_type''}" for n c
    using that f(8) by (simp add: getitem_setitem getitem_frame_select)
  have all0: "list_all (\<lambda>(n, c). col_len c = length keep) df"
    using wf len_keep by (simp add: wf_frame_def)
  have lp: "col_len p = length keep"
    using f(1,2) wf len_keep by (simp add: col_len_add_int wf_frame_col_len)
  have lq: "col_len q = length keep"
    using f(1,3,4,5) wf len_keep
    by (simp add: col_len_truediv col_len_add_float wf_frame_col_len)
  have all2: "list_all (\<lambda>(n, c). col_len c = length keep)
                (setitem (setitem df ''value1_plus_10'' p) ''value2_div_value1'' q)"
    using all0 lp lq by (simp add: all_len_setitem)
  have lh: "col_len (where_labels high ''High'' ''Medium'') = ?k"
    using f(1,7) wf len_keep
    by (simp add: where_labels_def length_gt col_len_select wf_frame_col_len)
  have all3: "list_all (\<lambda>(n, c). col_len c = ?k)
                (frame_select (setitem (setitem df ''value1_plus_10'' p)
                   ''value2_div_value1'' q) keep)"
    using all2 by (rule all_len_frame_select)
  have "list_all (\<lambda>(n, c). col_len c = ?k) out"
    unfolding f(8) using all3 lh by (rule all_len_setitem)
  moreover have "out \<noteq> []"
    unfolding f(8) by (rule setitem_not_Nil)
  ultimately have n: "nrows out = ?k"
    by (rule nrows_all_len [rotated])
  have le: "?k \<le> nrows df"
    using length_filter_le [of "\<lambda>b. b" keep] len_keep by simp
  show ?thesis
  proof (intro exI conjI allI impI)
    show "getitem df ''value1'' = Inr v1" by (rule f(1))
    show "gt v1 20 = Inr keep" by (rule f(6))
    show "length keep = nrows df" by (rule len_keep)
    show "nrows out = ?k" by (rule n)
    show "nrows out \<le> nrows df" using n le by simp
  next
    fix n c
    assume "getitem df n = Inr c"
      "n \<notin> {''value1_plus_10'', ''value2_div_value1'', ''value1_type''}"
    then show "getitem out n = Inr (col_select keep c)" by (rule cols)
  qed
qed

text \<open>The test suite's input: of its five rows the three with ids 2, 3 and 4 are kept.\<close>

theorem filter_keeps_rows_above_20_witness:
  "fst (load_input (reader_of sample_df_for_test) (effective_path (Some ''test_input.csv''))
          test_world) = Inr sample_df_for_test \<and>
   wf_frame sample_df_for_test \<and>
   fst (process_data (reader_of sample_df_for_test) (Some ''test_input.csv'') test_world) =
     Inr processed_df_for_test \<and>
   nrows sample_df_for_test = 5 \<and> nrows processed_df_for_test = 3 \<and>
   getitem processed_df_for_test ''id'' = Inr (IntCol [2, 3, 4])"
  using filter_keeps_rows_above_20 [OF load_test_input wf_sample_df_for_test run_test_input]
    load_test_input wf_sample_df_for_test run_test_input
  by (simp add: nrows_def getitem_def sample_df_for_test_def processed_df_for_test_def)

section \<open>The quotient column\<close>




section \<open>The shape of the result\<close>

text \<open>
  C10. For every loaded table with the columns \<open>id\<close>, \<open>category\<close>, \<open>value1\<close>, \<open>value2\<close> of the
  documented types and of one length, \<open>process_data\<close> returns the seven columns \<open>id\<close>,
  \<open>category\<close>, \<open>value1\<close>, \<open>value2\<close>, \<open>value1_plus_10\<close>, \<open>value2_div_value1\<close>, \<open>value1_type\<close> in
  this order, and the rows of its first four columns are the input rows with \<open>value1 > 20\<close>,
  unchanged and in their order.
\<close>

theorem schema_frame_result:
  assumes load: "fst (load_input cd (effective_path p) w) =
        Inr [(''id'', IntCol ids), (''category'', ObjCol cats),
             (''value1'', IntCol v1s), (''value2'', FloatCol v2s)]"
    and len: "length ids = length v1s" "length cats = length v1s" "length v2s = length v1s"
    and keep: "keep = map (\<lambda>x. 20 < sint x) v1s"
  shows "fst (process_data cd p w) =
     Inr [(''id'', IntCol (select keep ids)),
          (''category'', ObjCol (select keep cats)),
          (''value1'', IntCol (select keep v1s)),
          (''value2'', FloatCol (select keep v2s)),
          (''value1_plus_10'', IntCol (map (\<lambda>x. x + 10) (select keep v1s))),
          (''value2_div_value1'',
             FloatCol (map (\<lambda>(y, x). fdiv y (Finite (real_of_int (sint x) + 1 / 1000000)))
                         (zip (select keep v2s) (select keep v1s)))),
          (''value1_type'',
             ObjCol (map (\<lambda>x. if 35 < sint x then ''High'' else ''Medium'')
                       (select keep v1s)))] \<and>
   zip (select keep ids) (zip (select keep cats) (zip (select keep v1s) (select keep v2s))) =
     filter (\<lambda>(i, c, v, y). 20 < sint v) (zip ids (zip cats (zip v1s v2s)))"
proof
  let ?df = "[(''id'', IntCol ids), (''category'', ObjCol cats),
              (''value1'', IntCol v1s), (''value2'', FloatCol v2s)]"
  have v1: "getitem ?df ''value1'' = Inr (IntCol v1s)" by (simp add: getitem_def)
  have v2: "getitem ?df ''value2'' = Inr (FloatCol v2s)" by (simp add: getitem_def)
  show "fst (process_data cd p w) =
     Inr [(''id'', IntCol (select keep ids)),
          (''category'', ObjCol (select keep cats)),
          (''value1'', IntCol (select keep v1s)),
          (''value2'', FloatCol (select keep v2s)),
          (''value1_plus_10'', IntCol (map (\<lambda>x. x + 10) (select keep v1s))),
          (''value2_div_value1'',
             FloatCol (map (\<lambda>(y, x). fdiv y (Finite (real_of_int (sint x) + 1 / 1000000)))
                         (zip (select keep v2s) (select keep v1s)))),
          (''value1_type'',
             ObjCol (map (\<lambda>x. if 35 < sint x then ''High'' else ''Medium'')
                       (select keep v1s)))]"
    using load transform_int_float [OF v1 v2, of w]
    by (simp add: process_data_cases keep frame_select_def select_map select_zip)
next
  let ?rows = "zip ids (zip cats (zip v1s v2s))"
  have k: "keep = map (\<lambda>(i, c, v, y). 20 < sint v) ?rows"
    using rows_value1 [OF len, of "\<lambda>v. 20 < sint v"] keep by simp
  have "select keep ?rows = filter (\<lambda>(i, c, v, y). 20 < sint v) ?rows"
    unfolding k by (rule select_map_filter)
  then show "zip (select keep ids)
      (zip (select keep cats) (zip (select keep v1s) (select keep v2s))) =
     filter (\<lambda>(i, c, v, y). 20 < sint v) (zip ids (zip cats (zip v1s v2s)))"
    by (simp only: select_zip)
qed

text \<open>The test suite's input and the frame it expects.\<close>

theorem schema_frame_result_witness:
  "fst (load_input (reader_of sample_df_for_test) (effective_path (Some ''test_input.csv''))
          test_world) = Inr sample_df_for_test \<and>
   fst (process_data (reader_of sample_df_for_test) (Some ''test_input.csv'') test_world) =
     Inr processed_df_for_test \<and>
   map fst processed_df_for_test =
     [''id'', ''category'', ''value1'', ''value2'', ''value1_plus_10'', ''value2_div_value1'',
      ''value1_type'']"
  using schema_frame_result [OF load_test_input [unfolded sample_df_for_test_def] _ _ _ refl]
    load_test_input run_test_input
  by (simp add: processed_df_for_test_def)

section \<open>Failures of the load\<close>

text \<open>
  C6 (as amended). When reading the file at the effective path meets the empty-content
  condition (the reader raises EmptyDataError: the file has zero bytes, or the parser finds
  no columns in it), \<open>process_data\<close> logs the input as empty and returns the empty table at
  once: nothing else is logged, no file is touched, and no exception reaches the caller.
\<close>

theorem empty_input_returns_empty:
  assumes "files w (effective_path p) = Some f" and "readable f"
    and "content f = [] \<or> parse cd (content f) = Inl EmptyDataError"
  shows "fst (read_csv cd (effective_path p) w) = Inl EmptyDataError \<and>
         process_data cd p w =
           (Inr DataFrame,
            w\<lparr>logged := logged w @ [(INFO, ReadingFrom (effective_path p)),
                                     (ERROR, InputIsEmpty (effective_path p))]\<rparr>) \<and>
         empty_frame DataFrame"
proof -
  have ex: "path_exists w (effective_path p)"
    using assms(1) by (simp add: path_exists_def)
  have rd: "fst (read_csv cd (effective_path p) w) = Inl EmptyDataError"
    using assms by (auto simp: read_csv_def)
  show ?thesis
    using rd by (simp add: process_data_def Let_def load_input_exists [OF ex] emit_def empty_frame_def DataFrame_def)
qed

text \<open>The zero-byte file \<open>empty_input.csv\<close> of the test suite.\<close>

theorem empty_input_returns_empty_witness:
  "files (world_of [''empty_input.csv'' \<mapsto> plain_file '''']) (effective_path (Some ''empty_input.csv''))
     = Some (plain_file '''') \<and>
   readable (plain_file '''') \<and> content (plain_file '''') = [] \<and>
   process_data (reader_of sample_df_for_test) (Some ''empty_input.csv'')
       (world_of [''empty_input.csv'' \<mapsto> plain_file '''']) =
     (Inr [], \<lparr>files = [''empty_input.csv'' \<mapsto> plain_file ''''], entropy = (\<lambda>i. 0),
               logged = [(INFO, ReadingFrom ''empty_input.csv''),
                         (ERROR, InputIsEmpty ''empty_input.csv'')]\<rparr>)"
proof -
  have f: "files (world_of [''empty_input.csv'' \<mapsto> plain_file ''''])
             (effective_path (Some ''empty_input.csv'')) = Some (plain_file '''')"
    by (simp add: world_of_def effective_path_def)
  have r: "readable (plain_file '''')" by (simp add: plain_file_def)
  have c: "content (plain_file '''') = []" by (simp add: plain_file_def)
  show ?thesis
    using empty_input_returns_empty [OF f r disjI1 [OF c], of "reader_of sample_df_for_test"] f r c
    by (simp add: world_of_def effective_path_def DataFrame_def)
qed

text \<open>
  C6 as stated fails: parsing that yields zero rows is not the empty-content condition. A
  file that holds the header line only is read without an exception, as a table of four
  columns and no row; \<open>process_data\<close> logs no error and runs every step of the pipeline on
  it, returning the seven columns with no row.
\<close>

theorem header_only_input_counterexample:
  "process_data
     (reader_of [(''id'', ObjCol []), (''category'', ObjCol []),
                 (''value1'', ObjCol []), (''value2'', ObjCol [])])
     (Some ''header_only.csv'')
     (world_of [''header_only.csv'' \<mapsto> plain_file ''id,category,value1,value2''])
   = (Inr [(''id'', ObjCol []), (''category'', ObjCol []), (''value1'', ObjCol []),
           (''value2'', ObjCol []), (''value1_plus_10'', ObjCol []),
           (''value2_div_value1'', ObjCol []), (''value1_type'', ObjCol [])],
      \<lparr>files = [''header_only.csv'' \<mapsto> plain_file ''id,category,value1,value2''],
        entropy = (\<lambda>i. 0),
        logged =
          [(INFO, ReadingFrom ''header_only.csv''),
           (INFO, OriginalHead [(''id'', ObjCol []), (''category'', ObjCol []),
                                (''value1'', ObjCol []), (''value2'', ObjCol [])]),
           (DEBUG, StartingTransformations),
           (DEBUG, AddedColumn ''value1_plus_10''),
           (DEBUG, AddedColumn ''value2_div_value1''),
           (DEBUG, Filtered 0),
           (DEBUG, AddedColumn ''value1_type''),
           (INFO, ProcessedHead
              [(''id'', ObjCol []), (''category'', ObjCol []), (''value1'', ObjCol []),
               (''value2'', ObjCol []), (''value1_plus_10'', ObjCol []),
               (''value2_div_value1'', ObjCol []), (''value1_type'', ObjCol [])])]\<rparr>)"
  by (simp add: run_defs)

text \<open>
  C9. When reading the file at the effective path fails in any other way, \<open>process_data\<close>
  logs the error with the exception and returns the empty table at once; and whatever
  exception the \<open>try\<close> block raises, reading or generating, \<open>process_data\<close> returns the
  empty table and raises nothing.
\<close>

theorem read_failure_returns_empty:
  "(\<forall>e. path_exists w (effective_path p) \<longrightarrow>
        fst (read_csv cd (effective_path p) w) = Inl e \<longrightarrow> e \<noteq> EmptyDataError \<longrightarrow>
        process_data cd p w =
          (Inr DataFrame,
           w\<lparr>logged := logged w @ [(INFO, ReadingFrom (effective_path p)),
                                    (ERROR, ErrorReading (effective_path p) e)]\<rparr>)) \<and>
   (\<forall>e. fst (load_input cd (effective_path p) w) = Inl e \<longrightarrow>
        fst (process_data cd p w) = Inr DataFrame) \<and>
   empty_frame DataFrame"
proof (intro conjI allI impI)
  fix e
  assume ex: "path_exists w (effective_path p)"
    and rd: "fst (read_csv cd (effective_path p) w) = Inl e" and ne: "e \<noteq> EmptyDataError"
  show "process_data cd p w =
          (Inr DataFrame,
           w\<lparr>logged := logged w @ [(INFO, ReadingFrom (effective_path p)),
                                    (ERROR, ErrorReading (effective_path p) e)]\<rparr>)"
    using rd ne by (simp add: process_data_def Let_def load_input_exists [OF ex] emit_def)
next
  fix e
  assume "fst (load_input cd (effective_path p) w) = Inl e"
  then show "fst (process_data cd p w) = Inr DataFrame"
    by (simp add: process_data_cases)
next
  show "empty_frame DataFrame" by (simp add: empty_frame_def DataFrame_def)
qed

text \<open>A file that exists and cannot be read.\<close>

theorem read_failure_returns_empty_witness:
  "path_exists (world_of [''locked.csv'' \<mapsto> \<lparr>content = ''csv'', readable = False, writable = False\<rparr>])
     (effective_path (Some ''locked.csv'')) \<and>
   fst (read_csv (reader_of sample_df_for_test) (effective_path (Some ''locked.csv''))
     (world_of [''locked.csv'' \<mapsto> \<lparr>content = ''csv'', readable = False, writable = False\<rparr>]))
     = Inl PermissionError \<and>
   PermissionError \<noteq> EmptyDataError \<and>
   process_data (reader_of sample_df_for_test) (Some ''locked.csv'')
     (world_of [''locked.csv'' \<mapsto> \<lparr>content = ''csv'', readable = False, writable = False\<rparr>]) =
     (Inr [],
      \<lparr>files = [''locked.csv'' \<mapsto> \<lparr>content = ''csv'', readable = False, writable = False\<rparr>],
        entropy = (\<lambda>i. 0),
        logged = [(INFO, ReadingFrom ''locked.csv''),
                  (ERROR, ErrorReading ''locked.csv'' PermissionError)]\<rparr>)"
  using read_failure_returns_empty [of
      "world_of [''locked.csv'' \<mapsto> \<lparr>content = ''csv'', readable = False, writable = False\<rparr>]"
      "Some ''locked.csv''" "reader_of sample_df_for_test"]
  by (simp add: world_of_def effective_path_def DataFrame_def path_exists_def read_csv_def)

text \<open>
  Outside these failures \<open>process_data\<close> does raise: a file that parses to a table without
  the column \<open>value1\<close>, or with text in it, fails after the \<open>try\<close> block, in the first
  transformation, and the exception reaches the caller.
\<close>

lemma missing_column_raises:
  "fst (process_data (reader_of [(''a'', IntCol [1]), (''b'', IntCol [2])])
          (Some ''other.csv'') (world_of [''other.csv'' \<mapsto> plain_file ''a,b 1,2'']))
   = Inl (KeyError ''value1'')"
  by (simp add: run_defs)

lemma text_column_raises:
  "fst (process_data
          (reader_of [(''id'', IntCol [1]), (''category'', ObjCol [''A'']),
                      (''value1'', ObjCol [''high'']), (''value2'', FloatCol [Finite 1])])
          (Some ''other.csv'') (world_of [''other.csv'' \<mapsto> plain_file ''csv'']))
   = Inl TypeError"
  by (simp add: run_defs)

section \<open>The missing input\<close>

text \<open>
  C7 fails at a run the program can make. No file exists at the path, so the sample is
  generated and written to the default input path; the five random integers are all 10,
  no row has \<open>value1 > 20\<close>, and the table returned has the seven columns and no row: it is
  empty, where C7 and the test \<open>test_process_data_generates_sample_if_no_input\<close> want it
  non-empty.
\<close>

theorem missing_input_all_rows_filtered:
  "fst (create_sample_dataframe (world_of Map.empty)) =
     Inr [(''id'', IntCol [1, 2, 3, 4, 5]),
          (''category'', ObjCol [''A'', ''B'', ''A'', ''C'', ''B'']),
          (''value1'', IntCol [10, 10, 10, 10, 10]),
          (''value2'', FloatCol [Finite 0, Finite 0, Finite 0, Finite 0, Finite 0])] \<and>
   \<not> path_exists (world_of Map.empty) (effective_path (Some ''non_existent_file.csv'')) \<and>
   fst (process_data (reader_of sample_df_for_test) (Some ''non_existent_file.csv'')
          (world_of Map.empty)) =
     Inr [(''id'', IntCol []), (''category'', ObjCol []), (''value1'', IntCol []),
          (''value2'', FloatCol []), (''value1_plus_10'', IntCol []),
          (''value2_div_value1'', FloatCol []), (''value1_type'', ObjCol [])] \<and>
   map_sum id empty_frame
     (fst (process_data (reader_of sample_df_for_test) (Some ''non_existent_file.csv'')
             (world_of Map.empty))) = Inr True \<and>
   files (snd (process_data (reader_of sample_df_for_test) (Some ''non_existent_file.csv'')
             (world_of Map.empty))) DEFAULT_INPUT_CSV_PATH = Some (plain_file ''csv'')"
  by (simp add: run_defs upt_rec empty_frame_def)

section \<open>Determinism\<close>

text \<open>
  C8. When a file exists at the effective path, \<open>process_data\<close> changes no file, its result
  depends on nothing but that file (not on the log, the random stream or other files), and
  a second run returns what the first did; and when the default input file exists, a
  second run of the whole program leaves every file, the output file among them, as the
  first run left it.
\<close>

theorem process_data_idempotent:
  assumes "path_exists w (effective_path p)"
  shows "files (snd (process_data cd p w)) = files w \<and>
         fst (process_data cd p (snd (process_data cd p w))) = fst (process_data cd p w) \<and>
         (\<forall>w2 :: world. files w2 (effective_path p) = files w (effective_path p) \<longrightarrow>
               fst (process_data cd p w2) = fst (process_data cd p w)) \<and>
         (effective_path p = DEFAULT_INPUT_CSV_PATH \<longrightarrow>
            files (main cd (main cd w)) = files (main cd w))"
proof (intro conjI allI impI)
  show f: "files (snd (process_data cd p w)) = files w"
    by (rule files_process_data_exists [OF assms])
  show "fst (process_data cd p (snd (process_data cd p w))) = fst (process_data cd p w)"
    by (rule fst_process_data_cong [OF assms]) (simp add: f)
next
  fix w2 :: world assume "files w2 (effective_path p) = files w (effective_path p)"
  then show "fst (process_data cd p w2) = fst (process_data cd p w)"
    by (rule fst_process_data_cong [OF assms])
next
  assume d: "effective_path p = DEFAULT_INPUT_CSV_PATH"
  let ?p = "Some DEFAULT_INPUT_CSV_PATH"
  have eff: "effective_path ?p = DEFAULT_INPUT_CSV_PATH"
    by (simp add: effective_path_def DEFAULT_INPUT_CSV_PATH_def)
  have ex: "path_exists w DEFAULT_INPUT_CSV_PATH" using assms d by simp
  have ne: "DEFAULT_INPUT_CSV_PATH \<noteq> DEFAULT_OUTPUT_CSV_PATH"
    by (simp add: DEFAULT_INPUT_CSV_PATH_def DEFAULT_OUTPUT_CSV_PATH_def)
  have same: "files (main cd w) DEFAULT_INPUT_CSV_PATH = files w DEFAULT_INPUT_CSV_PATH"
    unfolding files_main [OF ex]
    by (auto split: sum.splits simp: files_to_csv_other [OF ne])
  then have ex1: "path_exists (main cd w) DEFAULT_INPUT_CSV_PATH"
    using ex by (simp add: path_exists_def)
  have r: "fst (process_data cd ?p (main cd w)) = fst (process_data cd ?p w)"
    by (rule fst_process_data_cong) (simp_all add: eff ex same)
  show "files (main cd (main cd w)) = files (main cd w)"
  proof (cases "fst (process_data cd ?p w)")
    case (Inl e)
    then show ?thesis
      using r by (simp add: files_main [OF ex1] files_main [OF ex])
  next
    case (Inr df)
    show ?thesis
    proof (cases "empty_frame df")
      case True
      then show ?thesis
        using r Inr by (simp add: files_main [OF ex1] files_main [OF ex])
    next
      case False
      have m: "files (main cd w) = files (snd (to_csv cd df DEFAULT_OUTPUT_CSV_PATH w))"
        using Inr False by (simp add: files_main [OF ex])
      have "files (main cd (main cd w)) =
            files (snd (to_csv cd df DEFAULT_OUTPUT_CSV_PATH (main cd w)))"
        using r Inr False by (simp add: files_main [OF ex1])
      also have "\<dots> = files (snd (to_csv cd df DEFAULT_OUTPUT_CSV_PATH
                          (snd (to_csv cd df DEFAULT_OUTPUT_CSV_PATH w))))"
        by (rule files_to_csv_cong [OF m])
      also have "\<dots> = files (main cd w)"
        by (simp add: files_to_csv_twice m)
      finally show ?thesis .
    qed
  qed
qed

text \<open>The default input file holding the test suite's input, with no path given.\<close>

theorem process_data_idempotent_witness:
  "path_exists (world_of [DEFAULT_INPUT_CSV_PATH \<mapsto> plain_file ''csv'']) (effective_path None) \<and>
   effective_path None = DEFAULT_INPUT_CSV_PATH \<and>
   fst (process_data (reader_of sample_df_for_test) None
          (snd (process_data (reader_of sample_df_for_test) None
                  (world_of [DEFAULT_INPUT_CSV_PATH \<mapsto> plain_file ''csv'']))))
     = Inr processed_df_for_test \<and>
   files (main (reader_of sample_df_for_test) (main (reader_of sample_df_for_test)
            (world_of [DEFAULT_INPUT_CSV_PATH \<mapsto> plain_file ''csv''])))
     = files (main (reader_of sample_df_for_test)
            (world_of [DEFAULT_INPUT_CSV_PATH \<mapsto> plain_file ''csv'']))"
proof -
  have ex: "path_exists (world_of [DEFAULT_INPUT_CSV_PATH \<mapsto> plain_file ''csv''])
              (effective_path None)"
    by (simp add: path_exists_def world_of_def effective_path_def)
  have eff: "effective_path None = DEFAULT_INPUT_CSV_PATH"
    by (simp add: effective_path_def)
  have run: "fst (process_data (reader_of sample_df_for_test) None
                (world_of [DEFAULT_INPUT_CSV_PATH \<mapsto> plain_file ''csv''])) =
             Inr processed_df_for_test"
    by (simp add: run_defs)
  show ?thesis
    using process_data_idempotent [OF ex, of "reader_of sample_df_for_test"] ex eff run
    by simp
qed

end
